theory Spec2Isabelle
  imports Complex_Main
begin

section \<open>Arrays, errors and the library operations the losses call\<close>

text \<open>
  The module \<^verbatim>\<open>sgimc/qa_objective/__init__.py\<close> works on one-dimensional numpy arrays of
  doubles. An array is a list of reals here: floating-point rounding, overflow and NaN are
  idealised away, so every statement below is about the real-valued functions the code
  computes; the section on double precision below is the one place where rounding is
  modelled. The only exception the numeric code can raise on such arrays is numpy's and
  scikit-learn's \<^verbatim>\<open>ValueError\<close>; \<open>NotANumber\<close> stands for a call that returns NaN, a result
  that no real number stands for.
\<close>

datatype error = ValueError | NotANumber

type_synonym ndarray = "real list"

definition and_then :: "error + 'a \<Rightarrow> ('a \<Rightarrow> error + 'b) \<Rightarrow> error + 'b" where
  "and_then m f = (case m of Inl e \<Rightarrow> Inl e | Inr x \<Rightarrow> f x)"

text \<open>
  A binary numpy operator on two one-dimensional arrays: equal shapes combine index by
  index, a length-one operand is stretched to the other's length, any other pair of
  shapes raises \<^verbatim>\<open>ValueError\<close> (operands could not be broadcast together).
\<close>

definition broadcast2 :: "(real \<Rightarrow> real \<Rightarrow> real) \<Rightarrow> ndarray \<Rightarrow> ndarray \<Rightarrow> error + ndarray" where
  "broadcast2 f xs ys =
     (if length xs = length ys then Inr (map2 f xs ys)
      else if length xs = 1 then Inr (map (\<lambda>y. f (hd xs) y) ys)
      else if length ys = 1 then Inr (map (\<lambda>x. f x (hd ys)) xs)
      else Inl ValueError)"

definition np_sub :: "ndarray \<Rightarrow> ndarray \<Rightarrow> error + ndarray" where
  "np_sub = broadcast2 (\<lambda>x y. x - y)"

definition np_mul :: "ndarray \<Rightarrow> ndarray \<Rightarrow> error + ndarray" where
  "np_mul = broadcast2 (\<lambda>x y. x * y)"

text \<open>
  The in-place \<^verbatim>\<open>out -= ys\<close>: the result must keep the shape of \<^verbatim>\<open>out\<close>, so \<^verbatim>\<open>ys\<close> may be
  stretched but \<^verbatim>\<open>out\<close> may not.
\<close>

definition np_isub :: "ndarray \<Rightarrow> ndarray \<Rightarrow> error + ndarray" where
  "np_isub out ys =
     (if length ys = length out then Inr (map2 (\<lambda>x y. x - y) out ys)
      else if length ys = 1 then Inr (map (\<lambda>x. x - hd ys) out)
      else Inl ValueError)"

text \<open>
  \<^verbatim>\<open>sklearn.metrics.mean_squared_error\<close> on two one-dimensional arrays: it rejects
  arrays of inconsistent length and arrays without samples, and otherwise averages the
  squared differences.
\<close>

definition mean_squared_error :: "ndarray \<Rightarrow> ndarray \<Rightarrow> error + real" where
  "mean_squared_error y_true y_pred =
     (if length y_true \<noteq> length y_pred \<or> y_true = [] then Inl ValueError
      else Inr (sum_list (map2 (\<lambda>a b. (a - b)\<^sup>2) y_true y_pred) / real (length y_true)))"

text \<open>
  \<^verbatim>\<open>sklearn.metrics.accuracy_score\<close> on two one-dimensional label arrays: it rejects
  arrays of inconsistent length first, then a true-label array holding a non-integral
  value (a continuous target against binary predictions), and otherwise returns the
  fraction of positions where the labels agree. On two empty arrays that fraction is the
  average of no values, which is NaN.
\<close>

definition accuracy_score :: "ndarray \<Rightarrow> ndarray \<Rightarrow> error + real" where
  "accuracy_score y_true y_pred =
     (if length y_true \<noteq> length y_pred then Inl ValueError
      else if list_ex (\<lambda>y. real_of_int \<lfloor>y\<rfloor> \<noteq> y) y_true then Inl ValueError
      else if y_true = [] then Inl NotANumber
      else Inr (real (length (filter (\<lambda>(a, b). a = b) (zip y_true y_pred)))
                / real (length y_true)))"

section \<open>The L2 loss\<close>

definition QAObjectiveL2Loss_v_func :: "ndarray \<Rightarrow> ndarray \<Rightarrow> error + ndarray" where
  "QAObjectiveL2Loss_v_func predict target =
     and_then (np_sub predict target) (\<lambda>d. Inr (map (\<lambda>r. (1/2) * r\<^sup>2) d))"

definition QAObjectiveL2Loss_g_func :: "ndarray \<Rightarrow> ndarray \<Rightarrow> error + ndarray" where
  "QAObjectiveL2Loss_g_func predict target = np_sub predict target"

definition QAObjectiveL2Loss_h_func :: "ndarray \<Rightarrow> ndarray \<Rightarrow> error + ndarray" where
  "QAObjectiveL2Loss_h_func predict target = Inr (replicate (length target) 1)"

definition QAObjectiveL2Loss_score :: "ndarray \<Rightarrow> ndarray \<Rightarrow> error + real" where
  "QAObjectiveL2Loss_score predict target = mean_squared_error target predict"

section \<open>The Huber loss\<close>

text \<open>
  An instance carries what the constructor of the base class \<^verbatim>\<open>QuadraticApproximation\<close>
  set up, and \<^verbatim>\<open>epsilon\<close>. The base class lives in \<^verbatim>\<open>base.py\<close>; its constructor receives
  \<^verbatim>\<open>X, W, Y, H, R, n_threads, approx_type\<close> and never \<^verbatim>\<open>epsilon\<close>, so its outcome is an
  argument of the model: \<open>Inl e\<close> when it raised \<open>e\<close>, \<open>Inr b\<close> when it built the state \<open>b\<close>.
  The keyword argument \<^verbatim>\<open>epsilon=1e-2\<close> is \<open>None\<close> when the caller leaves it out;
  \<^verbatim>\<open>epsilon\<close> is a float, the default the real \<open>1/100\<close>.
\<close>

record 'b QAObjectiveHuberLoss =
  base :: 'b
  epsilon :: real

definition QAObjectiveHuberLoss_init ::
    "'e + 'b \<Rightarrow> real option \<Rightarrow> 'e + 'b QAObjectiveHuberLoss" where
  "QAObjectiveHuberLoss_init super_init eps_arg =
     (case super_init of
        Inl e \<Rightarrow> Inl e
      | Inr b \<Rightarrow> Inr \<lparr>base = b, epsilon = (case eps_arg of None \<Rightarrow> 1/100 | Some e \<Rightarrow> e)\<rparr>)"

definition QAObjectiveHuberLoss_v_func ::
    "'b QAObjectiveHuberLoss \<Rightarrow> ndarray \<Rightarrow> ndarray \<Rightarrow> error + ndarray" where
  "QAObjectiveHuberLoss_v_func self predict target =
     (let eps = epsilon self in
      and_then (np_sub predict target) (\<lambda>d.
        let resid = map abs d in
        Inr (map (\<lambda>r. if r > eps then eps * (r - eps / 2) else (1/2) * r\<^sup>2) resid)))"

definition QAObjectiveHuberLoss_g_func ::
    "'b QAObjectiveHuberLoss \<Rightarrow> ndarray \<Rightarrow> ndarray \<Rightarrow> error + ndarray" where
  "QAObjectiveHuberLoss_g_func self predict target =
     (let eps = epsilon self in
      and_then (np_sub predict target) (\<lambda>resid.
        Inr (map (\<lambda>r. if \<bar>r\<bar> > eps then eps * sgn r else r) resid)))"

definition QAObjectiveHuberLoss_h_func ::
    "'b QAObjectiveHuberLoss \<Rightarrow> ndarray \<Rightarrow> ndarray \<Rightarrow> error + ndarray" where
  "QAObjectiveHuberLoss_h_func self predict target =
     (let eps = epsilon self in
      and_then (np_sub predict target) (\<lambda>d.
        Inr (map (\<lambda>r. (if \<bar>r\<bar> \<le> eps then 1 else 0) * 1) d)))"

text \<open>
  \<^verbatim>\<open>QAObjectiveHuberLoss\<close> defines no \<^verbatim>\<open>score\<close>: the attribute is found in its parent
  class \<^verbatim>\<open>QAObjectiveL2Loss\<close>, a static method that never sees the instance.
\<close>

definition QAObjectiveHuberLoss_score ::
    "'b QAObjectiveHuberLoss \<Rightarrow> ndarray \<Rightarrow> ndarray \<Rightarrow> error + real" where
  "QAObjectiveHuberLoss_score self predict target = QAObjectiveL2Loss_score predict target"

section \<open>The logistic loss\<close>

text \<open>
  \<^verbatim>\<open>sigmoid\<close> acts on each element alone: \<open>sigmoid\<close> is what it does to one element,
  \<open>sigmoid_array\<close> what it does to an array.
\<close>

definition sigmoid :: "real \<Rightarrow> real" where
  "sigmoid x = (let out = 1 / (1 + exp (- \<bar>x\<bar>)) in if x > 0 then out else 1 - out)"

definition sigmoid_array :: "ndarray \<Rightarrow> ndarray" where
  "sigmoid_array x = map sigmoid x"

definition QAObjectiveLogLoss_v_func :: "ndarray \<Rightarrow> ndarray \<Rightarrow> error + ndarray" where
  "QAObjectiveLogLoss_v_func logit target =
     (let out = map (\<lambda>l. ln (1 + exp (- \<bar>l\<bar>))) logit in
      and_then (np_mul target logit) (\<lambda>m. np_isub out (map (\<lambda>x. min x 0) m)))"

definition QAObjectiveLogLoss_g_func :: "ndarray \<Rightarrow> ndarray \<Rightarrow> error + ndarray" where
  "QAObjectiveLogLoss_g_func logit target =
     and_then (np_mul logit target) (\<lambda>m.
       and_then (np_mul (sigmoid_array m) target) (\<lambda>q. np_sub q target))"

definition QAObjectiveLogLoss_h_func :: "ndarray \<Rightarrow> ndarray \<Rightarrow> error + ndarray" where
  "QAObjectiveLogLoss_h_func logit target =
     (let prob = sigmoid_array logit in Inr (map (\<lambda>p. p * (1 - p)) prob))"

definition QAObjectiveLogLoss_score :: "ndarray \<Rightarrow> ndarray \<Rightarrow> error + real" where
  "QAObjectiveLogLoss_score logit target =
     (let predict = map (\<lambda>l. 2 * (if l > 0 then 1 else 0) - 1) logit in
      and_then (accuracy_score target predict) (\<lambda>a. Inr (1 - a)))"

section \<open>The sigmoid in double precision\<close>

text \<open>
  The arrays hold IEEE binary64 numbers. \<open>fl\<close> rounds a real to the nearest binary64
  number, ties to the even significand: a number of binary exponent \<open>e\<close> is rounded to a
  multiple of \<open>2 powr (e - 52)\<close>, and below the smallest normal exponent \<open>- 1022\<close> the
  spacing stays \<open>2 powr (- 1074)\<close>, so tiny results are rounded to subnormal numbers and to
  zero. Overflow to infinity is left out: every intermediate result of \<^verbatim>\<open>sigmoid\<close> lies
  between 0 and 2. \<open>sigmoid_double\<close> is \<^verbatim>\<open>sigmoid\<close> on one binary64 element with every
  arithmetic operation rounded once; \<^verbatim>\<open>abs\<close> and the unary minus are exact, and \<^verbatim>\<open>np.exp\<close> is
  taken as the correctly rounded exponential.
\<close>

definition round_half_even :: "real \<Rightarrow> int" where
  "round_half_even r =
     (let n = \<lfloor>r\<rfloor>; d = r - of_int n
      in if d < 1/2 then n else if d > 1/2 then n + 1 else if even n then n else n + 1)"

definition fl :: "real \<Rightarrow> real" where
  "fl x =
     (if x = 0 then 0
      else let e = max \<lfloor>log 2 \<bar>x\<bar>\<rfloor> (- 1022);
               ulp = (2::real) powr (of_int e - 52)
           in sgn x * (ulp * of_int (round_half_even (\<bar>x\<bar> / ulp))))"

definition sigmoid_double :: "real \<Rightarrow> real" where
  "sigmoid_double x =
     (let out = fl (1 / fl (1 + fl (exp (- \<bar>x\<bar>))))
      in if x > 0 then out else fl (1 - out))"

section \<open>Facts about the array operations\<close>

lemma broadcast2_same_length:
  "length xs = length ys \<Longrightarrow> broadcast2 f xs ys = Inr (map2 f xs ys)"
  by (simp add: broadcast2_def)

lemma broadcast2_mismatch:
  "length xs \<noteq> length ys \<Longrightarrow> length xs \<noteq> 1 \<Longrightarrow> length ys \<noteq> 1 \<Longrightarrow>
   broadcast2 f xs ys = Inl ValueError"
  by (simp add: broadcast2_def)

lemma map_map2:
  "map g (map2 f xs ys) = map2 (\<lambda>x y. g (f x y)) xs ys"
  by (simp add: case_prod_unfold comp_def)

lemma sigmoid_naive: "sigmoid x = 1 / (1 + exp (- x))"
proof (cases "x > 0")
  case True
  then show ?thesis by (simp add: sigmoid_def)
next
  case False
  define e where "e = exp x"
  have e: "0 < e" by (simp add: e_def)
  have "1 - 1 / (1 + e) = 1 / (1 + 1 / e)"
    using e by (simp add: field_simps)
  hence "1 - 1 / (1 + exp x) = 1 / (1 + exp (- x))"
    by (simp add: e_def exp_minus inverse_eq_divide)
  with False show ?thesis by (simp add: sigmoid_def)
qed

lemma sigmoid_neg: "sigmoid (- x) = 1 - sigmoid x"
  unfolding sigmoid_def Let_def by (cases "x = 0") auto

lemma huber_v_same_length:
  "length predict = length target \<Longrightarrow>
   QAObjectiveHuberLoss_v_func self predict target
     = Inr (map2 (\<lambda>p t. if \<bar>p - t\<bar> > epsilon self
                          then epsilon self * (\<bar>p - t\<bar> - epsilon self / 2)
                          else (1/2) * \<bar>p - t\<bar>\<^sup>2) predict target)"
  by (simp add: QAObjectiveHuberLoss_v_func_def np_sub_def broadcast2_same_length
      and_then_def Let_def case_prod_unfold comp_def del: power2_abs)

lemma huber_g_same_length:
  "length predict = length target \<Longrightarrow>
   QAObjectiveHuberLoss_g_func self predict target
     = Inr (map2 (\<lambda>p t. if \<bar>p - t\<bar> > epsilon self
                          then epsilon self * sgn (p - t) else p - t) predict target)"
  by (simp add: QAObjectiveHuberLoss_g_func_def np_sub_def broadcast2_same_length
      and_then_def Let_def case_prod_unfold comp_def)

lemma huber_h_same_length:
  "length predict = length target \<Longrightarrow>
   QAObjectiveHuberLoss_h_func self predict target
     = Inr (map2 (\<lambda>p t. if \<bar>p - t\<bar> \<le> epsilon self then 1 else 0) predict target)"
  by (simp add: QAObjectiveHuberLoss_h_func_def np_sub_def broadcast2_same_length
      and_then_def Let_def case_prod_unfold comp_def)

lemma l2_v_same_length:
  "length predict = length target \<Longrightarrow>
   QAObjectiveL2Loss_v_func predict target
     = Inr (map2 (\<lambda>p t. (1/2) * (p - t)\<^sup>2) predict target)"
  by (simp add: QAObjectiveL2Loss_v_func_def np_sub_def broadcast2_same_length
      and_then_def Let_def case_prod_unfold comp_def)

lemma map2_cong_zip:
  "(\<And>x y. (x, y) \<in> set (zip xs ys) \<Longrightarrow> f x y = g x y) \<Longrightarrow> map2 f xs ys = map2 g xs ys"
  by (rule map_cong) auto

lemma log_loss_stable:
  fixes l t :: real
  assumes t: "t = 1 \<or> t = - 1"
  shows "ln (1 + exp (- \<bar>l\<bar>)) - min (t * l) 0 = ln (1 + exp (- (t * l)))"
proof (cases "0 \<le> t * l")
  case True
  with t have "\<bar>l\<bar> = t * l" by (auto simp add: abs_if)
  with True show ?thesis by simp
next
  case False
  with t have a: "\<bar>l\<bar> = - (t * l)" by (auto simp add: abs_if)
  define x where "x = t * l"
  have "(1 + exp x) / exp x = 1 + exp (- x)"
    by (simp add: exp_minus field_simps)
  moreover have pos: "0 < 1 + exp x"
    by (simp add: add_pos_pos)
  moreover have "ln ((1 + exp x) / exp x) = ln (1 + exp x) - x"
    using pos by (auto simp add: ln_div)
  ultimately have "ln (1 + exp x) - x = ln (1 + exp (- x))" by simp
  with False a show ?thesis by (simp add: x_def)
qed

lemma log_v_same_length:
  "length logit = length target \<Longrightarrow>
   QAObjectiveLogLoss_v_func logit target
     = Inr (map2 (\<lambda>l t. ln (1 + exp (- \<bar>l\<bar>)) - min (t * l) 0) logit target)"
proof (induction logit target rule: list_induct2)
  case Nil
  then show ?case
    by (simp add: QAObjectiveLogLoss_v_func_def np_mul_def broadcast2_def np_isub_def
        and_then_def)
next
  case (Cons x xs y ys)
  then show ?case
    by (simp add: QAObjectiveLogLoss_v_func_def np_mul_def broadcast2_def np_isub_def
        and_then_def Let_def)
qed

lemma log_g_same_length:
  "length logit = length target \<Longrightarrow>
   QAObjectiveLogLoss_g_func logit target
     = Inr (map2 (\<lambda>l t. sigmoid (l * t) * t - t) logit target)"
proof (induction logit target rule: list_induct2)
  case Nil
  then show ?case
    by (simp add: QAObjectiveLogLoss_g_func_def np_mul_def np_sub_def broadcast2_def
        sigmoid_array_def and_then_def)
next
  case (Cons x xs y ys)
  then show ?case
    by (simp add: QAObjectiveLogLoss_g_func_def np_mul_def np_sub_def broadcast2_def
        sigmoid_array_def and_then_def)
qed

lemma broadcast2_stretch_left:
  "length xs = 1 \<Longrightarrow> length ys \<noteq> 1 \<Longrightarrow> broadcast2 f xs ys = Inr (map (\<lambda>y. f (hd xs) y) ys)"
  by (simp add: broadcast2_def)

lemma broadcast2_stretch_right:
  "length ys = 1 \<Longrightarrow> length xs \<noteq> 1 \<Longrightarrow> broadcast2 f xs ys = Inr (map (\<lambda>x. f x (hd ys)) xs)"
  by (simp add: broadcast2_def)

lemma map2_map_same: "map2 f (map g xs) xs = map (\<lambda>x. f (g x) x) xs"
  by (induction xs) simp_all

lemma broadcast2_map_same:
  "broadcast2 f (map g xs) xs = Inr (map (\<lambda>x. f (g x) x) xs)"
  by (simp add: broadcast2_def map2_map_same)

lemma huber_value_closed_form:
  fixes r eps :: real
  assumes "0 \<le> eps"
  shows "(if \<bar>r\<bar> > eps then eps * (\<bar>r\<bar> - eps / 2) else (1/2) * \<bar>r\<bar>\<^sup>2)
       = (1/2) * (min \<bar>r\<bar> eps)\<^sup>2 + eps * (max \<bar>r\<bar> eps - eps)"
  using assms by (auto simp add: min_def max_def power2_eq_square algebra_simps)

lemma huber_gradient_closed_form:
  fixes r eps :: real
  assumes "0 \<le> eps"
  shows "(if \<bar>r\<bar> > eps then eps * sgn r else r) = max (- eps) (min r eps)"
  using assms by (auto simp add: min_def max_def sgn_real_def)

lemma huber_v_single:
  "QAObjectiveHuberLoss_v_func self [p] [t]
     = Inr [if \<bar>p - t\<bar> > epsilon self
            then epsilon self * (\<bar>p - t\<bar> - epsilon self / 2)
            else (1/2) * \<bar>p - t\<bar>\<^sup>2]"
  using huber_v_same_length [of "[p]" "[t]" self] by simp

lemma huber_g_single:
  "QAObjectiveHuberLoss_g_func self [p] [t]
     = Inr [if \<bar>p - t\<bar> > epsilon self then epsilon self * sgn (p - t) else p - t]"
  using huber_g_same_length [of "[p]" "[t]" self] by simp

lemma huber_v_continuous:
  assumes "0 \<le> epsilon self"
  shows "continuous_on UNIV (\<lambda>p. hd (projr (QAObjectiveHuberLoss_v_func self [p] [t])))"
proof -
  have eq: "(\<lambda>p. hd (projr (QAObjectiveHuberLoss_v_func self [p] [t])))
      = (\<lambda>p. (1/2) * (min \<bar>p - t\<bar> (epsilon self))\<^sup>2
                + epsilon self * (max \<bar>p - t\<bar> (epsilon self) - epsilon self))"
    unfolding huber_v_single using huber_value_closed_form [OF assms] by (simp del: power2_abs)
  show ?thesis unfolding eq by (intro continuous_intros)
qed

lemma huber_g_continuous:
  assumes "0 \<le> epsilon self"
  shows "continuous_on UNIV (\<lambda>p. hd (projr (QAObjectiveHuberLoss_g_func self [p] [t])))"
proof -
  have eq: "(\<lambda>p. hd (projr (QAObjectiveHuberLoss_g_func self [p] [t])))
      = (\<lambda>p. max (- epsilon self) (min (p - t) (epsilon self)))"
    unfolding huber_g_single using huber_gradient_closed_form [OF assms] by simp
  show ?thesis unfolding eq by (intro continuous_intros)
qed

section \<open>Facts about rounding to double precision\<close>

lemma round_half_even_floor:
  "r - of_int \<lfloor>r\<rfloor> < 1 / 2 \<Longrightarrow> round_half_even r = \<lfloor>r\<rfloor>"
  by (simp add: round_half_even_def Let_def)

lemma round_half_even_ge: "of_int n \<le> r \<Longrightarrow> n \<le> round_half_even r"
proof -
  assume "of_int n \<le> r"
  hence "n \<le> \<lfloor>r\<rfloor>" by (simp add: le_floor_iff)
  thus ?thesis by (simp add: round_half_even_def Let_def)
qed

lemma round_half_even_le: "r \<le> of_int n \<Longrightarrow> round_half_even r \<le> n"
proof (cases "r = of_int n")
  case True
  then show ?thesis by (simp add: round_half_even_def Let_def)
next
  case False
  assume "r \<le> of_int n"
  with False have "r < of_int n" by simp
  hence "\<lfloor>r\<rfloor> < n" by (simp add: floor_less_iff)
  thus ?thesis by (simp add: round_half_even_def Let_def)
qed

lemma round_half_even_le_succ: "of_int (round_half_even r) \<le> r + 1"
proof -
  have "round_half_even r \<le> \<lfloor>r\<rfloor> + 1"
    by (simp add: round_half_even_def Let_def)
  hence "real_of_int (round_half_even r) \<le> real_of_int (\<lfloor>r\<rfloor> + 1)"
    by (simp only: of_int_le_iff)
  also have "\<dots> \<le> r + 1" by simp
  finally show ?thesis .
qed

lemma fl_pos_eq:
  "0 < x \<Longrightarrow> fl x = (2::real) powr (of_int (max \<lfloor>log 2 x\<rfloor> (- 1022)) - 52)
      * of_int (round_half_even (x / 2 powr (of_int (max \<lfloor>log 2 x\<rfloor> (- 1022)) - 52)))"
  by (simp add: fl_def Let_def)

lemma fl_nonneg: "0 \<le> x \<Longrightarrow> 0 \<le> fl x"
proof (cases "x = 0")
  case True
  then show ?thesis by (simp add: fl_def)
next
  case False
  assume "0 \<le> x"
  with False have x: "0 < x" by simp
  define u where "u = (2::real) powr (of_int (max \<lfloor>log 2 x\<rfloor> (- 1022)) - 52)"
  have u: "0 < u" by (simp add: u_def)
  have "of_int 0 \<le> x / u" using x u by simp
  hence "0 \<le> round_half_even (x / u)" by (rule round_half_even_ge)
  thus ?thesis using x u unfolding fl_pos_eq [OF x] u_def [symmetric] by simp
qed

lemma fl_one_plus_tiny:
  assumes z: "0 \<le> z" "z \<le> 2 powr (- 99)"
  shows "fl (1 + z) = 1"
proof -
  have z99: "z \<le> 1 / 2 ^ 99"
    using z(2) by (simp add: powr_minus_divide)
  have "(1::real) / 2 ^ 99 \<le> 1 / 2 ^ 54" by simp
  with z99 have z54: "z \<le> 1 / 2 ^ 54" by linarith
  have zlt: "z < 1" using z54 by (simp add: field_simps) 
  have pos: "0 < 1 + z" using z by simp
  have "0 \<le> log 2 (1 + z)" using z by simp
  moreover have "log 2 (1 + z) < 1"
    using zlt z pos by (simp add: log_less_iff)
  ultimately have fl0: "\<lfloor>log 2 (1 + z)\<rfloor> = 0" by linarith
  have u: "(2::real) powr (- 52) = 1 / 2 ^ 52"
    by (simp add: powr_minus_divide)
  have ratio: "(1 + z) / (1 / 2 ^ 52) = 2 ^ 52 + z * 2 ^ 52"
    by (simp add: algebra_simps)
  have small: "0 \<le> z * 2 ^ 52" "z * 2 ^ 52 < 1 / 2"
    using z(1) z54 by (simp_all add: field_simps)
  have fr: "\<lfloor>(2::real) ^ 52 + z * 2 ^ 52\<rfloor> = 2 ^ 52"
    using small by (simp add: floor_eq_iff)
  have "(2::real) ^ 52 + z * 2 ^ 52 - of_int \<lfloor>(2::real) ^ 52 + z * 2 ^ 52\<rfloor> < 1 / 2"
    unfolding fr using small(2) by simp
  hence "round_half_even ((2::real) ^ 52 + z * 2 ^ 52) = \<lfloor>(2::real) ^ 52 + z * 2 ^ 52\<rfloor>"
    by (rule round_half_even_floor)
  hence rhe: "round_half_even ((2::real) ^ 52 + z * 2 ^ 52) = 2 ^ 52"
    unfolding fr .
  show ?thesis
    unfolding fl_pos_eq [OF pos] fl0 using rhe by (simp add: u ratio)
qed

lemma fl_one: "fl 1 = 1"
  using fl_one_plus_tiny [of 0] by simp

lemma fl_tiny:
  assumes y: "0 < y" "y \<le> 2 powr (- 100)"
  shows "0 \<le> fl y \<and> fl y \<le> 2 powr (- 99)"
proof -
  define e where "e = max \<lfloor>log 2 y\<rfloor> (- 1022)"
  define u where "u = (2::real) powr (of_int e - 52)"
  have u: "0 < u" by (simp add: u_def)
  have "log 2 y \<le> - 100"
    using y by (simp add: log_le_iff)
  hence "\<lfloor>log 2 y\<rfloor> \<le> - 100" by linarith
  hence e: "e \<le> - 100" by (simp add: e_def)
  hence "real_of_int e - 52 \<le> - 100" by simp
  hence ule: "u \<le> 2 powr (- 100)"
    unfolding u_def by simp
  have "fl y = u * of_int (round_half_even (y / u))"
    unfolding fl_pos_eq [OF y(1)] u_def e_def ..
  also have "\<dots> \<le> u * (y / u + 1)"
    using u round_half_even_le_succ [of "y / u"] by (simp only: mult_le_cancel_left_pos)
  also have "\<dots> = y + u" using u by (simp add: algebra_simps)
  also have "\<dots> \<le> 2 powr (- 100) + 2 powr (- 100)" using y(2) ule by simp
  also have "\<dots> = 2 powr (- 99)" by (simp add: powr_minus_divide)
  finally have "fl y \<le> 2 powr (- 99)" .
  moreover have "0 \<le> fl y" using y(1) by (simp add: fl_nonneg)
  ultimately show ?thesis by simp
qed

lemma exp_minus_100: "exp (- 100 :: real) \<le> 2 powr (- 100)"
proof -
  have "(2::real) \<le> exp 1" using exp_ge_add_one_self [of "1::real"] by simp
  hence "(2::real) ^ 100 \<le> exp 1 ^ 100" by (rule power_mono) simp
  also have "\<dots> = exp (100 :: real)"
    using exp_of_nat_mult [of 100 "1::real"] by simp
  finally have "(2::real) ^ 100 \<le> exp 100" .
  hence "1 / exp (100::real) \<le> 1 / 2 ^ 100"
    by (simp add: frac_le)
  thus ?thesis by (simp add: exp_minus powr_minus_divide inverse_eq_divide)
qed

lemma sigmoid_double_out_100:
  "fl (1 / fl (1 + fl (exp (- 100 :: real)))) = 1"
proof -
  have "0 \<le> fl (exp (- 100)) \<and> fl (exp (- 100)) \<le> 2 powr (- 99)"
    by (rule fl_tiny) (simp_all add: exp_minus_100)
  hence "fl (1 + fl (exp (- 100))) = 1" by (simp add: fl_one_plus_tiny)
  thus ?thesis by (simp add: fl_one)
qed

lemma sigmoid_double_100: "sigmoid_double 100 = 1"
  using sigmoid_double_out_100 by (simp add: sigmoid_double_def)

lemma sigmoid_double_minus_100: "sigmoid_double (- 100) = 0"
  using sigmoid_double_out_100 by (simp add: sigmoid_double_def fl_def)

lemma fl_ge_one:
  assumes x: "1 \<le> x"
  shows "1 \<le> fl x"
proof -
  define e where "e = \<lfloor>log 2 x\<rfloor>"
  define u where "u = (2::real) powr (of_int e - 52)"
  have pos: "0 < x" using x by simp
  have u: "0 < u" by (simp add: u_def)
  have "0 \<le> log 2 x" using x by simp
  hence e0: "0 \<le> e" by (simp add: e_def)
  hence emax: "max \<lfloor>log 2 x\<rfloor> (- 1022) = e" by (simp add: e_def)
  have "of_int e \<le> log 2 x" by (simp add: e_def)
  hence low: "2 powr (of_int e) \<le> x"
    using pos by (simp add: le_log_iff)
  have split: "(2::real) powr (of_int e) = u * 2 ^ 52"
    by (simp add: u_def powr_diff)
  have "of_int (2 ^ 52) \<le> x / u"
    using low u by (simp add: split pos_le_divide_eq mult.commute)
  hence "2 ^ 52 \<le> round_half_even (x / u)" by (rule round_half_even_ge)
  hence "(2::real) ^ 52 \<le> of_int (round_half_even (x / u))"
    by (metis of_int_le_iff of_int_numeral of_int_power)
  hence A: "u * 2 ^ 52 \<le> u * of_int (round_half_even (x / u))"
    using u by (simp only: mult_le_cancel_left_pos)
  have B: "fl x = u * of_int (round_half_even (x / u))"
    unfolding fl_pos_eq [OF pos] emax u_def ..
  have "1 \<le> (2::real) powr (of_int e)"
    using e0 by (simp add: ge_one_powr_ge_zero)
  also have "\<dots> = u * 2 ^ 52" by (rule split)
  also note A
  also note B [symmetric]
  finally show ?thesis .
qed

lemma fl_le_one:
  assumes x: "0 \<le> x" "x \<le> 1"
  shows "fl x \<le> 1"
proof -
  consider "x = 0" | "x = 1" | "0 < x" "x < 1" using x by fastforce
  then show ?thesis
  proof cases
    case 1
    then show ?thesis by (simp add: fl_def)
  next
    case 2
    then show ?thesis by (simp add: fl_one)
  next
    case 3
    define e where "e = max \<lfloor>log 2 x\<rfloor> (- 1022)"
    define u where "u = (2::real) powr (of_int e - 52)"
    have u: "0 < u" by (simp add: u_def)
    have "log 2 x < 0" using 3 by simp
    hence "\<lfloor>log 2 x\<rfloor> \<le> - 1" by linarith
    hence e1: "e \<le> - 1" by (simp add: e_def)
    have "log 2 x < of_int \<lfloor>log 2 x\<rfloor> + 1" by linarith
    also have "\<dots> \<le> of_int e + 1" by (simp add: e_def)
    finally have "log 2 x < of_int e + 1" .
    hence up: "x < 2 powr (of_int e + 1)"
      using 3(1) by (simp add: log_less_iff)
    have split: "(2::real) powr (of_int e + 1) = u * 2 ^ 53"
      by (simp add: u_def powr_diff powr_add)
    have "x / u \<le> of_int (2 ^ 53)"
      using up u by (simp add: split pos_divide_le_eq mult.commute)
    hence "round_half_even (x / u) \<le> 2 ^ 53" by (rule round_half_even_le)
    hence "of_int (round_half_even (x / u)) \<le> (2::real) ^ 53"
      by (metis of_int_le_iff of_int_numeral of_int_power)
    hence A: "u * of_int (round_half_even (x / u)) \<le> u * 2 ^ 53"
      using u by (simp only: mult_le_cancel_left_pos)
    have "fl x = u * of_int (round_half_even (x / u))"
      unfolding fl_pos_eq [OF 3(1)] u_def e_def ..
    also note A
    also have "u * 2 ^ 53 = (2::real) powr (of_int e + 1)" by (rule split [symmetric])
    also have "\<dots> \<le> 1"
      using powr_mono [of "of_int e + 1" 0 "2::real"] e1 by simp
    finally show ?thesis .
  qed
qed

lemma sigmoid_double_bounds: "0 \<le> sigmoid_double x \<and> sigmoid_double x \<le> 1"
proof -
  define a where "a = fl (exp (- \<bar>x\<bar>))"
  define b where "b = fl (1 + a)"
  define out where "out = fl (1 / b)"
  have a: "0 \<le> a" unfolding a_def by (rule fl_nonneg) simp
  have b: "1 \<le> b" unfolding b_def by (rule fl_ge_one) (use a in simp)
  have q: "0 \<le> 1 / b" "1 / b \<le> 1" using b by simp_all
  have out: "0 \<le> out" "out \<le> 1"
    unfolding out_def using q by (simp_all add: fl_nonneg fl_le_one)
  have r: "0 \<le> fl (1 - out)" "fl (1 - out) \<le> 1"
    using out by (simp_all add: fl_nonneg fl_le_one)
  have "sigmoid_double x = (if x > 0 then out else fl (1 - out))"
    by (simp add: sigmoid_double_def out_def b_def a_def)
  with out r show ?thesis by simp
qed

lemma round_half_even_of_int: "round_half_even (of_int n) = n"
  by (simp add: round_half_even_def)

lemma fl_two: "fl 2 = 2"
proof -
  have "(2::real) / (1 / 2 ^ 51) = of_int (2 ^ 52)" by simp
  hence "round_half_even ((2::real) / (1 / 2 ^ 51)) = 2 ^ 52"
    by (simp only: round_half_even_of_int)
  thus ?thesis
    unfolding fl_pos_eq [of 2, simplified] by (simp add: powr_minus_divide)
qed

lemma fl_half: "fl (1 / 2) = 1 / 2"
proof -
  have l: "log 2 (1 / 2) = - 1" by (simp add: log_divide)
  have "(1::real) / 2 / (1 / 2 ^ 53) = of_int (2 ^ 52)" by simp
  hence "round_half_even ((1::real) / 2 / (1 / 2 ^ 53)) = 2 ^ 52"
    by (simp only: round_half_even_of_int)
  moreover have "fl (1 / 2) = 2 powr (- 53) * of_int (round_half_even (1 / 2 / 2 powr (- 53)))"
    using fl_pos_eq [of "1 / 2"] by (simp add: l)
  ultimately show ?thesis by (simp add: powr_minus_divide)
qed

lemma sigmoid_double_zero: "sigmoid_double 0 = 1 / 2"
  by (simp add: sigmoid_double_def fl_one fl_two fl_half)

section \<open>The sigmoid transform\<close>

text \<open>
  C7, as the code has it. \<open>sigmoid\<close> computes \<open>t = 1 / (1 + exp (- \<bar>x\<bar>))\<close> and returns \<open>t\<close>
  when \<open>x > 0\<close> and \<open>1 - t\<close> otherwise. As a function on the reals it is the naive
  \<open>1 / (1 + exp (- x))\<close>, on one element and on a whole array, with
  \<open>sigmoid (- x) = 1 - sigmoid x\<close> and \<open>sigmoid 0 = 1 / 2\<close>. Computed in double precision the
  result lies between 0 and 1 with both bounds included: it is \<open>1 / 2\<close> at 0, exactly 1 at
  \<open>x = 100\<close> and exactly 0 at \<open>x = - 100\<close>.
\<close>

theorem sigmoid_spec:
  "sigmoid x = (if x > 0 then 1 / (1 + exp (- \<bar>x\<bar>)) else 1 - 1 / (1 + exp (- \<bar>x\<bar>)))
   \<and> sigmoid (- x) = 1 - sigmoid x
   \<and> sigmoid 0 = 1 / 2
   \<and> sigmoid x = 1 / (1 + exp (- x))
   \<and> sigmoid_array xs = map (\<lambda>v. 1 / (1 + exp (- v))) xs
   \<and> 0 \<le> sigmoid_double x \<and> sigmoid_double x \<le> 1
   \<and> sigmoid_double 0 = 1 / 2
   \<and> sigmoid_double 100 = 1
   \<and> sigmoid_double (- 100) = 0"
proof -
  have "sigmoid x = (if x > 0 then 1 / (1 + exp (- \<bar>x\<bar>)) else 1 - 1 / (1 + exp (- \<bar>x\<bar>)))"
    by (simp add: sigmoid_def)
  moreover have "sigmoid 0 = 1 / 2" by (simp add: sigmoid_def)
  moreover have "sigmoid_array xs = map (\<lambda>v. 1 / (1 + exp (- v))) xs"
    by (simp add: sigmoid_array_def sigmoid_naive)
  ultimately show ?thesis
    using sigmoid_neg [of x] sigmoid_naive [of x] sigmoid_double_bounds [of x]
      sigmoid_double_zero sigmoid_double_100 sigmoid_double_minus_100
    by blast
qed

text \<open>
  C7, as stated, fails: in double precision \<open>exp (- 100)\<close> is far below half the spacing
  of the doubles next to 1, so \<open>1 + exp (- 100)\<close> rounds to 1 and \<^verbatim>\<open>sigmoid\<close> returns
  exactly 1 at \<open>x = 100\<close> and exactly 0 at \<open>x = - 100\<close>: the result is not strictly between
  0 and 1.
\<close>

theorem sigmoid_strict_bounds_counterexample:
  "\<not> (0 < sigmoid_double (- 100) \<and> sigmoid_double (- 100) < 1)
   \<and> \<not> (0 < sigmoid_double 100 \<and> sigmoid_double 100 < 1)"
  by (simp add: sigmoid_double_100 sigmoid_double_minus_100)

section \<open>The L2 family\<close>

text \<open>
  C5. For predict and target arrays of equal length, the L2 value is
  \<open>(p - t)\<^sup>2 / 2\<close> at every index, the gradient is \<open>p - t\<close>, the Hessian diagonal is the
  all-ones array of the target's length, and the score is the library's mean squared
  error of target against predict, which for arrays that are not empty is the mean of
  the squared differences. On predict \<open>[1, 2, 3]\<close> and target \<open>[1, 1, 1]\<close> these are
  \<open>[0, 1/2, 2]\<close>, \<open>[0, 1, 2]\<close>, \<open>[1, 1, 1]\<close> and \<open>5/3\<close>.
\<close>

theorem l2_family_spec:
  "(length predict = length target \<longrightarrow>
      QAObjectiveL2Loss_v_func predict target
        = Inr (map2 (\<lambda>p t. (1/2) * (p - t)\<^sup>2) predict target)
    \<and> QAObjectiveL2Loss_g_func predict target = Inr (map2 (\<lambda>p t. p - t) predict target)
    \<and> QAObjectiveL2Loss_h_func predict target = Inr (replicate (length target) 1)
    \<and> QAObjectiveL2Loss_score predict target = mean_squared_error target predict
    \<and> (predict \<noteq> [] \<longrightarrow>
         QAObjectiveL2Loss_score predict target
           = Inr (sum_list (map2 (\<lambda>p t. (t - p)\<^sup>2) predict target)
                  / real (length predict))))
   \<and> QAObjectiveL2Loss_v_func [1, 2, 3] [1, 1, 1] = Inr [0, 1/2, 2]
   \<and> QAObjectiveL2Loss_g_func [1, 2, 3] [1, 1, 1] = Inr [0, 1, 2]
   \<and> QAObjectiveL2Loss_h_func [1, 2, 3] [1, 1, 1] = Inr [1, 1, 1]
   \<and> QAObjectiveL2Loss_score [1, 2, 3] [1, 1, 1] = Inr (5/3)"
proof -
  have swap: "length predict = length target \<Longrightarrow>
      map2 (\<lambda>a b. (a - b)\<^sup>2) target predict = map2 (\<lambda>p t. (t - p)\<^sup>2) predict target"
    by (induction predict target rule: list_induct2) simp_all
  have gen: "length predict = length target \<longrightarrow>
      QAObjectiveL2Loss_v_func predict target
        = Inr (map2 (\<lambda>p t. (1/2) * (p - t)\<^sup>2) predict target)
    \<and> QAObjectiveL2Loss_g_func predict target = Inr (map2 (\<lambda>p t. p - t) predict target)
    \<and> QAObjectiveL2Loss_h_func predict target = Inr (replicate (length target) 1)
    \<and> QAObjectiveL2Loss_score predict target = mean_squared_error target predict
    \<and> (predict \<noteq> [] \<longrightarrow>
         QAObjectiveL2Loss_score predict target
           = Inr (sum_list (map2 (\<lambda>p t. (t - p)\<^sup>2) predict target)
                  / real (length predict)))"
    by (auto simp add: QAObjectiveL2Loss_v_func_def QAObjectiveL2Loss_g_func_def
        QAObjectiveL2Loss_h_func_def QAObjectiveL2Loss_score_def mean_squared_error_def
        np_sub_def broadcast2_same_length and_then_def map_map2 swap)
  have v: "QAObjectiveL2Loss_v_func [1, 2, 3] [1, 1, 1] = Inr [0, 1/2, 2]"
    by (simp add: QAObjectiveL2Loss_v_func_def np_sub_def broadcast2_def and_then_def)
  have g: "QAObjectiveL2Loss_g_func [1, 2, 3] [1, 1, 1] = Inr [0, 1, 2]"
    by (simp add: QAObjectiveL2Loss_g_func_def np_sub_def broadcast2_def)
  have h: "QAObjectiveL2Loss_h_func [1, 2, 3] [1, 1, 1] = Inr [1, 1, 1]"
    by (simp add: QAObjectiveL2Loss_h_func_def numeral_3_eq_3)
  have s: "QAObjectiveL2Loss_score [1, 2, 3] [1, 1, 1] = Inr (5/3)"
    by (simp add: QAObjectiveL2Loss_score_def mean_squared_error_def)
  from gen v g h s show ?thesis by blast
qed

theorem l2_family_spec_witness:
  "length [2, 5 :: real] = length [1, 1 :: real]
   \<and> QAObjectiveL2Loss_v_func [2, 5] [1, 1] = Inr [1/2, 8]
   \<and> QAObjectiveL2Loss_g_func [2, 5] [1, 1] = Inr [1, 4]
   \<and> QAObjectiveL2Loss_h_func [2, 5] [1, 1] = Inr [1, 1]
   \<and> QAObjectiveL2Loss_score [2, 5] [1, 1] = Inr (17/2)"
  using l2_family_spec [of "[2, 5]" "[1, 1]"]
  by (simp add: numeral_2_eq_2 mean_squared_error_def)

section \<open>The Huber family\<close>

text \<open>
  C1, as the code has it. The constructor does not inspect \<open>epsilon\<close>: whenever the
  base-class constructor succeeds, construction succeeds for every \<open>epsilon\<close>, positive or
  not, and stores it unchanged; construction fails only with the error the base-class
  constructor raised.
\<close>

theorem huber_init_unchecked:
  "QAObjectiveHuberLoss_init (Inr b) (Some eps) = Inr \<lparr>base = b, epsilon = eps\<rparr>
   \<and> QAObjectiveHuberLoss_init (Inl e) eps_arg = Inl e"
  by (simp add: QAObjectiveHuberLoss_init_def)

text \<open>
  C1, as stated, fails: with \<open>epsilon = - 1\<close> and a base-class constructor that succeeds,
  construction succeeds and the instance holds \<open>epsilon = - 1\<close>.
\<close>

theorem huber_init_nonpositive_counterexample:
  "(- 1 :: real) \<le> 0
   \<and> QAObjectiveHuberLoss_init (Inr () :: error + unit) (Some (- 1))
       = Inr \<lparr>base = (), epsilon = - 1\<rparr>"
  by (simp add: QAObjectiveHuberLoss_init_def)

text \<open>
  C9. An instance constructed without an \<open>epsilon\<close> argument has \<open>epsilon = 1/100\<close>, and its
  value, gradient and Hessian diagonal on equal-length arrays are the Huber formulas with
  the threshold \<open>1/100\<close>.
\<close>

theorem huber_default_epsilon:
  assumes init: "QAObjectiveHuberLoss_init super_init None = Inr self"
  shows "epsilon self = 1/100
    \<and> (length predict = length target \<longrightarrow>
         QAObjectiveHuberLoss_v_func self predict target
           = Inr (map2 (\<lambda>p t. if \<bar>p - t\<bar> > 1/100
                               then (1/100) * (\<bar>p - t\<bar> - (1/100) / 2)
                               else (1/2) * \<bar>p - t\<bar>\<^sup>2) predict target)
       \<and> QAObjectiveHuberLoss_g_func self predict target
           = Inr (map2 (\<lambda>p t. if \<bar>p - t\<bar> > 1/100
                               then (1/100) * sgn (p - t) else p - t) predict target)
       \<and> QAObjectiveHuberLoss_h_func self predict target
           = Inr (map2 (\<lambda>p t. if \<bar>p - t\<bar> \<le> 1/100 then 1 else 0) predict target))"
proof -
  from init have e: "epsilon self = 1/100"
    by (auto simp add: QAObjectiveHuberLoss_init_def split: sum.splits)
  note v = huber_v_same_length [of predict target self, unfolded e]
    and g = huber_g_same_length [of predict target self, unfolded e]
    and h = huber_h_same_length [of predict target self, unfolded e]
  from e v g h show ?thesis by blast
qed

theorem huber_default_epsilon_witness:
  "QAObjectiveHuberLoss_init (Inr () :: error + unit) None = Inr \<lparr>base = (), epsilon = 1/100\<rparr>
   \<and> epsilon \<lparr>base = (), epsilon = 1/100\<rparr> = 1/100
   \<and> QAObjectiveHuberLoss_v_func \<lparr>base = (), epsilon = 1/100\<rparr> [0, 1] [0, 0]
       = Inr [0, 199/20000]
   \<and> QAObjectiveHuberLoss_g_func \<lparr>base = (), epsilon = 1/100\<rparr> [0, 1] [0, 0]
       = Inr [0, 1/100]
   \<and> QAObjectiveHuberLoss_h_func \<lparr>base = (), epsilon = 1/100\<rparr> [0, 1] [0, 0]
       = Inr [1, 0]"
proof -
  have init: "QAObjectiveHuberLoss_init (Inr () :: error + unit) None
      = Inr \<lparr>base = (), epsilon = 1/100\<rparr>"
    by (simp add: QAObjectiveHuberLoss_init_def)
  from huber_default_epsilon [OF init, of "[0, 1]" "[0, 0]"] init show ?thesis
    by simp
qed

text \<open>
  C4. For a Huber instance with \<open>epsilon > 0\<close> and arrays of equal length, at every index:
  where \<open>\<bar>predict - target\<bar> > epsilon\<close>, the value is the linear formula
  \<open>epsilon * (resid - epsilon / 2)\<close> and the gradient is \<open>epsilon * sign (predict - target)\<close>, of
  magnitude exactly \<open>epsilon\<close>; where \<open>\<bar>predict - target\<bar> \<le> epsilon\<close>, the value is the quadratic
  formula \<open>resid\<^sup>2 / 2\<close>, the L2 value \<open>(predict - target)\<^sup>2 / 2\<close>; where
  \<open>\<bar>predict - target\<bar> = epsilon\<close> exactly, the value returned equals both formulas. The
  value of one element is a continuous function of the prediction.
\<close>

theorem huber_regions:
  assumes eps: "0 < epsilon self"
    and len: "length predict = length target"
  shows "(\<exists>v g l.
      QAObjectiveHuberLoss_v_func self predict target = Inr v
    \<and> QAObjectiveHuberLoss_g_func self predict target = Inr g
    \<and> QAObjectiveL2Loss_v_func predict target = Inr l
    \<and> length v = length predict \<and> length g = length predict \<and> length l = length predict
    \<and> (\<forall>i < length predict.
          (\<bar>predict ! i - target ! i\<bar> = epsilon self \<longrightarrow>
              v ! i = epsilon self * (\<bar>predict ! i - target ! i\<bar> - epsilon self / 2)
            \<and> v ! i = (1/2) * \<bar>predict ! i - target ! i\<bar>\<^sup>2)
        \<and> (\<bar>predict ! i - target ! i\<bar> \<le> epsilon self \<longrightarrow>
              v ! i = (1/2) * \<bar>predict ! i - target ! i\<bar>\<^sup>2
            \<and> v ! i = l ! i \<and> v ! i = (1/2) * (predict ! i - target ! i)\<^sup>2)
        \<and> (\<bar>predict ! i - target ! i\<bar> > epsilon self \<longrightarrow>
              v ! i = epsilon self * (\<bar>predict ! i - target ! i\<bar> - epsilon self / 2)
            \<and> g ! i = epsilon self * sgn (predict ! i - target ! i)
            \<and> \<bar>g ! i\<bar> = epsilon self)))
    \<and> (\<forall>t. continuous_on UNIV
            (\<lambda>p. hd (projr (QAObjectiveHuberLoss_v_func self [p] [t]))))"
proof -
  let ?v = "map2 (\<lambda>p t. if \<bar>p - t\<bar> > epsilon self
                          then epsilon self * (\<bar>p - t\<bar> - epsilon self / 2)
                          else (1/2) * \<bar>p - t\<bar>\<^sup>2) predict target"
  let ?g = "map2 (\<lambda>p t. if \<bar>p - t\<bar> > epsilon self
                          then epsilon self * sgn (p - t) else p - t) predict target"
  let ?l = "map2 (\<lambda>p t. (1/2) * (p - t)\<^sup>2) predict target"
  have lens: "length ?v = length predict" "length ?g = length predict"
    "length ?l = length predict"
    using len by simp_all
  have pointwise: "(\<bar>predict ! i - target ! i\<bar> = epsilon self \<longrightarrow>
              ?v ! i = epsilon self * (\<bar>predict ! i - target ! i\<bar> - epsilon self / 2)
            \<and> ?v ! i = (1/2) * \<bar>predict ! i - target ! i\<bar>\<^sup>2)
        \<and> (\<bar>predict ! i - target ! i\<bar> \<le> epsilon self \<longrightarrow>
              ?v ! i = (1/2) * \<bar>predict ! i - target ! i\<bar>\<^sup>2
            \<and> ?v ! i = ?l ! i \<and> ?v ! i = (1/2) * (predict ! i - target ! i)\<^sup>2)
        \<and> (\<bar>predict ! i - target ! i\<bar> > epsilon self \<longrightarrow>
              ?v ! i = epsilon self * (\<bar>predict ! i - target ! i\<bar> - epsilon self / 2)
            \<and> ?g ! i = epsilon self * sgn (predict ! i - target ! i)
            \<and> \<bar>?g ! i\<bar> = epsilon self)"
    if i: "i < length predict" for i
  proof -
    define r where "r = predict ! i - target ! i"
    have vi: "?v ! i = (if \<bar>r\<bar> > epsilon self
                          then epsilon self * (\<bar>r\<bar> - epsilon self / 2)
                          else (1/2) * \<bar>r\<bar>\<^sup>2)"
      using i len by (simp add: r_def del: power2_abs)
    have gi: "?g ! i = (if \<bar>r\<bar> > epsilon self then epsilon self * sgn r else r)"
      using i len by (simp add: r_def)
    have li: "?l ! i = (1/2) * r\<^sup>2"
      using i len by (simp add: r_def)
    have a: "\<bar>r\<bar> = epsilon self \<Longrightarrow> epsilon self * (\<bar>r\<bar> - epsilon self / 2) = (1/2) * \<bar>r\<bar>\<^sup>2"
      by (simp add: power2_eq_square algebra_simps)
    have c: "\<bar>r\<bar> > epsilon self \<Longrightarrow> \<bar>epsilon self * sgn r\<bar> = epsilon self"
      using eps by (simp add: abs_mult abs_sgn_eq)
    show ?thesis
      unfolding vi gi li r_def [symmetric] using a c by auto
  qed
  have cont: "\<forall>t. continuous_on UNIV
            (\<lambda>p. hd (projr (QAObjectiveHuberLoss_v_func self [p] [t])))"
    using eps by (simp add: huber_v_continuous)
  have "\<exists>v g l.
      QAObjectiveHuberLoss_v_func self predict target = Inr v
    \<and> QAObjectiveHuberLoss_g_func self predict target = Inr g
    \<and> QAObjectiveL2Loss_v_func predict target = Inr l
    \<and> length v = length predict \<and> length g = length predict \<and> length l = length predict
    \<and> (\<forall>i < length predict.
          (\<bar>predict ! i - target ! i\<bar> = epsilon self \<longrightarrow>
              v ! i = epsilon self * (\<bar>predict ! i - target ! i\<bar> - epsilon self / 2)
            \<and> v ! i = (1/2) * \<bar>predict ! i - target ! i\<bar>\<^sup>2)
        \<and> (\<bar>predict ! i - target ! i\<bar> \<le> epsilon self \<longrightarrow>
              v ! i = (1/2) * \<bar>predict ! i - target ! i\<bar>\<^sup>2
            \<and> v ! i = l ! i \<and> v ! i = (1/2) * (predict ! i - target ! i)\<^sup>2)
        \<and> (\<bar>predict ! i - target ! i\<bar> > epsilon self \<longrightarrow>
              v ! i = epsilon self * (\<bar>predict ! i - target ! i\<bar> - epsilon self / 2)
            \<and> g ! i = epsilon self * sgn (predict ! i - target ! i)
            \<and> \<bar>g ! i\<bar> = epsilon self))"
    using huber_v_same_length [OF len, of self] huber_g_same_length [OF len, of self]
      l2_v_same_length [OF len] lens pointwise
    by blast
  with cont show ?thesis by blast
qed

theorem huber_regions_witness:
  "\<exists>v g l.
      QAObjectiveHuberLoss_v_func \<lparr>base = (), epsilon = 1\<rparr> [0, 3, 1] [0, 0, 0] = Inr v
    \<and> QAObjectiveHuberLoss_g_func \<lparr>base = (), epsilon = 1\<rparr> [0, 3, 1] [0, 0, 0] = Inr g
    \<and> QAObjectiveL2Loss_v_func [0, 3, 1] [0, 0, 0] = Inr l
    \<and> v = [0, 5/2, 1/2] \<and> g = [0, 1, 1] \<and> l = [0, 9/2, 1/2]"
proof -
  have eps: "0 < epsilon \<lparr>base = (), epsilon = 1\<rparr>" by simp
  have len: "length [0, 3, 1 :: real] = length [0, 0, 0 :: real]" by simp
  from huber_regions [OF eps len] show ?thesis
    by (simp add: QAObjectiveHuberLoss_v_func_def QAObjectiveHuberLoss_g_func_def
        QAObjectiveL2Loss_v_func_def np_sub_def broadcast2_def and_then_def)
qed

text \<open>
  C10. For a Huber instance with \<open>epsilon > 0\<close> and arrays of equal length, the gradient
  is \<open>epsilon * sign (predict - target)\<close> at every index where \<open>\<bar>predict - target\<bar> > epsilon\<close>
  and \<open>predict - target\<close> where \<open>\<bar>predict - target\<bar> \<le> epsilon\<close>. Where
  \<open>\<bar>predict - target\<bar> = epsilon\<close> exactly, the quadratic-region branch is taken and its
  result \<open>predict - target\<close> equals the linear-region formula: the two branches agree at the
  boundary, and the gradient of one element is a continuous function of the prediction.
\<close>

theorem huber_gradient_continuous:
  assumes eps: "0 < epsilon self"
    and len: "length predict = length target"
  shows "(\<exists>g. QAObjectiveHuberLoss_g_func self predict target = Inr g
      \<and> length g = length predict
      \<and> (\<forall>i < length predict.
            (\<bar>predict ! i - target ! i\<bar> = epsilon self \<longrightarrow>
                g ! i = predict ! i - target ! i
              \<and> g ! i = epsilon self * sgn (predict ! i - target ! i))
          \<and> (\<bar>predict ! i - target ! i\<bar> \<le> epsilon self \<longrightarrow>
                g ! i = predict ! i - target ! i)
          \<and> (\<bar>predict ! i - target ! i\<bar> > epsilon self \<longrightarrow>
                g ! i = epsilon self * sgn (predict ! i - target ! i))))
    \<and> (\<forall>t. continuous_on UNIV
            (\<lambda>p. hd (projr (QAObjectiveHuberLoss_g_func self [p] [t]))))"
proof -
  let ?g = "map2 (\<lambda>p t. if \<bar>p - t\<bar> > epsilon self
                          then epsilon self * sgn (p - t) else p - t) predict target"
  have pointwise: "(\<bar>predict ! i - target ! i\<bar> = epsilon self \<longrightarrow>
                ?g ! i = predict ! i - target ! i
              \<and> ?g ! i = epsilon self * sgn (predict ! i - target ! i))
          \<and> (\<bar>predict ! i - target ! i\<bar> \<le> epsilon self \<longrightarrow>
                ?g ! i = predict ! i - target ! i)
          \<and> (\<bar>predict ! i - target ! i\<bar> > epsilon self \<longrightarrow>
                ?g ! i = epsilon self * sgn (predict ! i - target ! i))"
    if i: "i < length predict" for i
  proof -
    define r where "r = predict ! i - target ! i"
    have gi: "?g ! i = (if \<bar>r\<bar> > epsilon self then epsilon self * sgn r else r)"
      using i len by (simp add: r_def)
    have b: "\<bar>r\<bar> = epsilon self \<Longrightarrow> r = epsilon self * sgn r"
    proof -
      assume at: "\<bar>r\<bar> = epsilon self"
      show "r = epsilon self * sgn r"
        unfolding at [symmetric] by (simp add: abs_mult_sgn)
    qed
    show ?thesis
      unfolding gi r_def [symmetric] using b by auto
  qed
  have lg: "length ?g = length predict" using len by simp
  have cont: "\<forall>t. continuous_on UNIV
            (\<lambda>p. hd (projr (QAObjectiveHuberLoss_g_func self [p] [t])))"
    using eps by (simp add: huber_g_continuous)
  have "\<exists>g. QAObjectiveHuberLoss_g_func self predict target = Inr g
      \<and> length g = length predict
      \<and> (\<forall>i < length predict.
            (\<bar>predict ! i - target ! i\<bar> = epsilon self \<longrightarrow>
                g ! i = predict ! i - target ! i
              \<and> g ! i = epsilon self * sgn (predict ! i - target ! i))
          \<and> (\<bar>predict ! i - target ! i\<bar> \<le> epsilon self \<longrightarrow>
                g ! i = predict ! i - target ! i)
          \<and> (\<bar>predict ! i - target ! i\<bar> > epsilon self \<longrightarrow>
                g ! i = epsilon self * sgn (predict ! i - target ! i)))"
    using huber_g_same_length [OF len, of self] lg pointwise by blast
  with cont show ?thesis by blast
qed

theorem huber_gradient_continuous_witness:
  "\<exists>g. QAObjectiveHuberLoss_g_func \<lparr>base = (), epsilon = 1\<rparr> [0, 3, - 1, - 5] [0, 0, 0, 0]
         = Inr g
    \<and> g = [0, 1, - 1, - 1]"
proof -
  have eps: "0 < epsilon \<lparr>base = (), epsilon = 1\<rparr>" by simp
  have len: "length [0, 3, - 1, - 5 :: real] = length [0, 0, 0, 0 :: real]" by simp
  from huber_gradient_continuous [OF eps len] show ?thesis
    by (simp add: QAObjectiveHuberLoss_g_func_def np_sub_def broadcast2_def and_then_def)
qed

text \<open>
  C8. The Huber family's score is the L2 family's score, the mean squared error of target
  against predict, whatever the instance's \<open>epsilon\<close>: for equal-length arrays that are not
  empty it is the mean of the squared differences.
\<close>

theorem huber_score_inherited:
  "QAObjectiveHuberLoss_score self predict target = QAObjectiveL2Loss_score predict target
   \<and> QAObjectiveHuberLoss_score self predict target = mean_squared_error target predict
   \<and> (length predict = length target \<and> predict \<noteq> [] \<longrightarrow>
        QAObjectiveHuberLoss_score self predict target
          = Inr (sum_list (map2 (\<lambda>p t. (t - p)\<^sup>2) predict target) / real (length predict)))"
proof -
  have swap: "length predict = length target \<Longrightarrow>
      map2 (\<lambda>a b. (a - b)\<^sup>2) target predict = map2 (\<lambda>p t. (t - p)\<^sup>2) predict target"
    by (induction predict target rule: list_induct2) simp_all
  show ?thesis
    by (auto simp add: QAObjectiveHuberLoss_score_def QAObjectiveL2Loss_score_def
        mean_squared_error_def swap)
qed

theorem huber_score_inherited_witness:
  "QAObjectiveHuberLoss_score \<lparr>base = (), epsilon = 1\<rparr> [0, 3] [0, 0]
     = QAObjectiveL2Loss_score [0, 3] [0, 0]
   \<and> QAObjectiveHuberLoss_score \<lparr>base = (), epsilon = 1\<rparr> [0, 3] [0, 0] = Inr (9/2)"
  using huber_score_inherited [of "\<lparr>base = (), epsilon = 1\<rparr>" "[0, 3]" "[0, 0]"]
  by (simp add: QAObjectiveL2Loss_score_def mean_squared_error_def)

section \<open>The logistic family\<close>

text \<open>
  C3. For logit and target arrays of equal length, the logistic gradient is
  \<open>sigmoid (logit * target) * target - target\<close> at every index, and the Hessian diagonal is
  \<open>p * (1 - p)\<close> with \<open>p = sigmoid logit\<close>, the sigmoid of the raw logit and not of
  \<open>logit * target\<close>. For logit \<open>[0]\<close> and target \<open>[1]\<close> the gradient is \<open>[- 1/2]\<close> and the
  Hessian diagonal \<open>[1/4]\<close>. Both formulas hold for every real target, the labels \<open>- 1\<close> and \<open>1\<close> included.
\<close>

theorem logistic_gradient_hessian:
  "(length logit = length target \<longrightarrow>
      QAObjectiveLogLoss_g_func logit target
        = Inr (map2 (\<lambda>l t. sigmoid (l * t) * t - t) logit target))
   \<and> QAObjectiveLogLoss_h_func logit target
        = Inr (map (\<lambda>l. sigmoid l * (1 - sigmoid l)) logit)
   \<and> QAObjectiveLogLoss_g_func [0] [1] = Inr [- 1/2]
   \<and> QAObjectiveLogLoss_h_func [0] [1] = Inr [1/4]"
proof -
  have h: "QAObjectiveLogLoss_h_func logit target
        = Inr (map (\<lambda>l. sigmoid l * (1 - sigmoid l)) logit)" for logit target
    by (simp add: QAObjectiveLogLoss_h_func_def sigmoid_array_def)
  have s0: "sigmoid 0 = 1/2" by (simp add: sigmoid_def)
  have g0: "QAObjectiveLogLoss_g_func [0] [1] = Inr [- 1/2]"
    using log_g_same_length [of "[0]" "[1]"] by (simp add: s0)
  have h0: "QAObjectiveLogLoss_h_func [0] [1] = Inr [1/4]"
    by (simp add: h s0)
  from log_g_same_length [of logit target] h [of logit target] g0 h0
  show ?thesis by blast
qed

theorem logistic_gradient_hessian_witness:
  "QAObjectiveLogLoss_g_func [0, 0] [1, - 1] = Inr [- 1/2, 1/2]
   \<and> QAObjectiveLogLoss_h_func [0, 0] [1, - 1] = Inr [1/4, 1/4]"
proof -
  have s0: "sigmoid 0 = 1/2" by (simp add: sigmoid_def)
  from logistic_gradient_hessian [of "[0, 0]" "[1, - 1]"] show ?thesis
    by (simp add: s0)
qed

text \<open>
  C6. For logit and target arrays of equal length, the logistic value is
  \<open>log1p (exp (- \<bar>logit\<bar>)) - min (target * logit) 0\<close> at every index, and when every target
  is \<open>- 1\<close> or \<open>1\<close> this is the standard log-loss \<open>ln (1 + exp (- target * logit))\<close>. Hence the
  value of \<open>logit\<close> against the all-\<open>1\<close> target equals the value of \<open>- logit\<close> against the
  all-\<open>- 1\<close> target, and the value of \<open>[0]\<close> against \<open>[1]\<close> is \<open>[ln 2]\<close>.
\<close>

theorem logistic_value:
  "(length logit = length target \<longrightarrow>
      QAObjectiveLogLoss_v_func logit target
        = Inr (map2 (\<lambda>l t. ln (1 + exp (- \<bar>l\<bar>)) - min (t * l) 0) logit target)
    \<and> (set target \<subseteq> {- 1, 1} \<longrightarrow>
         QAObjectiveLogLoss_v_func logit target
           = Inr (map2 (\<lambda>l t. ln (1 + exp (- (t * l)))) logit target)))
   \<and> QAObjectiveLogLoss_v_func logit (replicate (length logit) 1)
       = QAObjectiveLogLoss_v_func (map uminus logit) (replicate (length logit) (- 1))
   \<and> QAObjectiveLogLoss_v_func [0] [1] = Inr [ln 2]"
proof -
  have std: "QAObjectiveLogLoss_v_func ls ts
           = Inr (map2 (\<lambda>l t. ln (1 + exp (- (t * l)))) ls ts)"
    if len: "length ls = length ts" and pm: "set ts \<subseteq> {- 1, 1}" for ls ts
  proof -
    have "map2 (\<lambda>l t. ln (1 + exp (- \<bar>l\<bar>)) - min (t * l) 0) ls ts
        = map2 (\<lambda>l t. ln (1 + exp (- (t * l)))) ls ts"
    proof (rule map2_cong_zip)
      fix l t assume "(l, t) \<in> set (zip ls ts)"
      hence "t \<in> set ts" by (rule set_zip_rightD)
      with pm have "t = 1 \<or> t = - 1" by auto
      thus "ln (1 + exp (- \<bar>l\<bar>)) - min (t * l) 0 = ln (1 + exp (- (t * l)))"
        by (rule log_loss_stable)
    qed
    with log_v_same_length [OF len] show ?thesis by simp
  qed
  have sym: "QAObjectiveLogLoss_v_func logit (replicate (length logit) 1)
       = QAObjectiveLogLoss_v_func (map uminus logit) (replicate (length logit) (- 1))"
  proof -
    have "map2 (\<lambda>l t. ln (1 + exp (- (t * l)))) logit (replicate (length logit) 1)
        = map2 (\<lambda>l t. ln (1 + exp (- (t * l)))) (map uminus logit)
            (replicate (length logit) (- 1))"
      by (induction logit) simp_all
    moreover have "QAObjectiveLogLoss_v_func logit (replicate (length logit) 1)
        = Inr (map2 (\<lambda>l t. ln (1 + exp (- (t * l)))) logit (replicate (length logit) 1))"
      by (rule std) auto
    moreover have "QAObjectiveLogLoss_v_func (map uminus logit) (replicate (length logit) (- 1))
        = Inr (map2 (\<lambda>l t. ln (1 + exp (- (t * l)))) (map uminus logit)
                 (replicate (length logit) (- 1)))"
      by (rule std) auto
    ultimately show ?thesis by simp
  qed
  have v0: "QAObjectiveLogLoss_v_func [0] [1] = Inr [ln 2]"
    using log_v_same_length [of "[0]" "[1]"] by simp
  from log_v_same_length [of logit target] std [of logit target] sym v0 show ?thesis by blast
qed

theorem logistic_value_witness:
  "QAObjectiveLogLoss_v_func [0, 0] [1, - 1] = Inr [ln 2, ln 2]"
  using logistic_value [of "[0, 0]" "[1, - 1]"] by simp

section \<open>Arrays of different lengths\<close>

text \<open>
  C2, as the code has it. When predict and target differ in length: the score of every
  family raises \<^verbatim>\<open>ValueError\<close>; the L2 Hessian diagonal never reads predict and is the
  all-ones array of the target's length; the logistic Hessian diagonal never reads target
  and has the logit's length; when neither array has length one, value and gradient of
  every family and the Huber Hessian diagonal raise \<^verbatim>\<open>ValueError\<close>; when one array has
  length one, its single element is combined with every element of the other array,
  without an error, by value and gradient of L2 and Huber, by the Huber Hessian diagonal
  and by the logistic gradient, and by the logistic value when it is the target, while a
  length-one logit makes the logistic value raise \<^verbatim>\<open>ValueError\<close>.
\<close>

theorem length_mismatch_behaviour:
  assumes ne: "length predict \<noteq> length target"
  shows "QAObjectiveL2Loss_score predict target = Inl ValueError
    \<and> QAObjectiveHuberLoss_score self predict target = Inl ValueError
    \<and> QAObjectiveLogLoss_score predict target = Inl ValueError
    \<and> QAObjectiveL2Loss_h_func predict target = Inr (replicate (length target) 1)
    \<and> QAObjectiveLogLoss_h_func predict target
        = Inr (map (\<lambda>l. sigmoid l * (1 - sigmoid l)) predict)
    \<and> (length predict \<noteq> 1 \<and> length target \<noteq> 1 \<longrightarrow>
          QAObjectiveL2Loss_v_func predict target = Inl ValueError
        \<and> QAObjectiveL2Loss_g_func predict target = Inl ValueError
        \<and> QAObjectiveHuberLoss_v_func self predict target = Inl ValueError
        \<and> QAObjectiveHuberLoss_g_func self predict target = Inl ValueError
        \<and> QAObjectiveHuberLoss_h_func self predict target = Inl ValueError
        \<and> QAObjectiveLogLoss_v_func predict target = Inl ValueError
        \<and> QAObjectiveLogLoss_g_func predict target = Inl ValueError)
    \<and> (length predict = 1 \<longrightarrow>
          QAObjectiveL2Loss_v_func predict target
            = Inr (map (\<lambda>t. (1/2) * (hd predict - t)\<^sup>2) target)
        \<and> QAObjectiveL2Loss_g_func predict target = Inr (map (\<lambda>t. hd predict - t) target)
        \<and> QAObjectiveHuberLoss_v_func self predict target
            = Inr (map (\<lambda>t. if \<bar>hd predict - t\<bar> > epsilon self
                             then epsilon self * (\<bar>hd predict - t\<bar> - epsilon self / 2)
                             else (1/2) * \<bar>hd predict - t\<bar>\<^sup>2) target)
        \<and> QAObjectiveHuberLoss_g_func self predict target
            = Inr (map (\<lambda>t. if \<bar>hd predict - t\<bar> > epsilon self
                             then epsilon self * sgn (hd predict - t)
                             else hd predict - t) target)
        \<and> QAObjectiveHuberLoss_h_func self predict target
            = Inr (map (\<lambda>t. if \<bar>hd predict - t\<bar> \<le> epsilon self then 1 else 0) target)
        \<and> QAObjectiveLogLoss_g_func predict target
            = Inr (map (\<lambda>t. sigmoid (hd predict * t) * t - t) target)
        \<and> QAObjectiveLogLoss_v_func predict target = Inl ValueError)
    \<and> (length target = 1 \<longrightarrow>
          QAObjectiveL2Loss_v_func predict target
            = Inr (map (\<lambda>p. (1/2) * (p - hd target)\<^sup>2) predict)
        \<and> QAObjectiveL2Loss_g_func predict target = Inr (map (\<lambda>p. p - hd target) predict)
        \<and> QAObjectiveHuberLoss_v_func self predict target
            = Inr (map (\<lambda>p. if \<bar>p - hd target\<bar> > epsilon self
                             then epsilon self * (\<bar>p - hd target\<bar> - epsilon self / 2)
                             else (1/2) * \<bar>p - hd target\<bar>\<^sup>2) predict)
        \<and> QAObjectiveHuberLoss_g_func self predict target
            = Inr (map (\<lambda>p. if \<bar>p - hd target\<bar> > epsilon self
                             then epsilon self * sgn (p - hd target)
                             else p - hd target) predict)
        \<and> QAObjectiveHuberLoss_h_func self predict target
            = Inr (map (\<lambda>p. if \<bar>p - hd target\<bar> \<le> epsilon self then 1 else 0) predict)
        \<and> QAObjectiveLogLoss_g_func predict target
            = Inr (map (\<lambda>l. sigmoid (l * hd target) * hd target - hd target) predict)
        \<and> QAObjectiveLogLoss_v_func predict target
            = Inr (map (\<lambda>l. ln (1 + exp (- \<bar>l\<bar>)) - min (hd target * l) 0) predict))"
proof -
  have s1: "QAObjectiveL2Loss_score predict target = Inl ValueError"
    using ne by (simp add: QAObjectiveL2Loss_score_def mean_squared_error_def)
  have s2: "QAObjectiveHuberLoss_score self predict target = Inl ValueError"
    using s1 by (simp add: QAObjectiveHuberLoss_score_def)
  have s3: "QAObjectiveLogLoss_score predict target = Inl ValueError"
    using ne by (simp add: QAObjectiveLogLoss_score_def accuracy_score_def and_then_def)
  have h1: "QAObjectiveL2Loss_h_func predict target = Inr (replicate (length target) 1)"
    by (simp add: QAObjectiveL2Loss_h_func_def)
  have h3: "QAObjectiveLogLoss_h_func predict target
        = Inr (map (\<lambda>l. sigmoid l * (1 - sigmoid l)) predict)"
    by (simp add: QAObjectiveLogLoss_h_func_def sigmoid_array_def)
  have fail: "QAObjectiveL2Loss_v_func predict target = Inl ValueError
        \<and> QAObjectiveL2Loss_g_func predict target = Inl ValueError
        \<and> QAObjectiveHuberLoss_v_func self predict target = Inl ValueError
        \<and> QAObjectiveHuberLoss_g_func self predict target = Inl ValueError
        \<and> QAObjectiveHuberLoss_h_func self predict target = Inl ValueError
        \<and> QAObjectiveLogLoss_v_func predict target = Inl ValueError
        \<and> QAObjectiveLogLoss_g_func predict target = Inl ValueError"
    if "length predict \<noteq> 1" "length target \<noteq> 1"
  proof -
    have sub: "np_sub predict target = Inl ValueError"
      using ne that by (simp add: np_sub_def broadcast2_mismatch)
    have mul: "np_mul predict target = Inl ValueError"
      using ne that by (simp add: np_mul_def broadcast2_mismatch)
    have mul': "np_mul target predict = Inl ValueError"
      using ne that by (simp add: np_mul_def broadcast2_def)
    show ?thesis
      by (simp add: QAObjectiveL2Loss_v_func_def QAObjectiveL2Loss_g_func_def
          QAObjectiveHuberLoss_v_func_def QAObjectiveHuberLoss_g_func_def
          QAObjectiveHuberLoss_h_func_def QAObjectiveLogLoss_v_func_def
          QAObjectiveLogLoss_g_func_def sub mul mul' and_then_def)
  qed
  have left: "QAObjectiveL2Loss_v_func predict target
            = Inr (map (\<lambda>t. (1/2) * (hd predict - t)\<^sup>2) target)
        \<and> QAObjectiveL2Loss_g_func predict target = Inr (map (\<lambda>t. hd predict - t) target)
        \<and> QAObjectiveHuberLoss_v_func self predict target
            = Inr (map (\<lambda>t. if \<bar>hd predict - t\<bar> > epsilon self
                             then epsilon self * (\<bar>hd predict - t\<bar> - epsilon self / 2)
                             else (1/2) * \<bar>hd predict - t\<bar>\<^sup>2) target)
        \<and> QAObjectiveHuberLoss_g_func self predict target
            = Inr (map (\<lambda>t. if \<bar>hd predict - t\<bar> > epsilon self
                             then epsilon self * sgn (hd predict - t)
                             else hd predict - t) target)
        \<and> QAObjectiveHuberLoss_h_func self predict target
            = Inr (map (\<lambda>t. if \<bar>hd predict - t\<bar> \<le> epsilon self then 1 else 0) target)
        \<and> QAObjectiveLogLoss_g_func predict target
            = Inr (map (\<lambda>t. sigmoid (hd predict * t) * t - t) target)
        \<and> QAObjectiveLogLoss_v_func predict target = Inl ValueError"
    if one: "length predict = 1"
  proof -
    from ne one have t1: "length target \<noteq> 1" by simp
    have sub: "np_sub predict target = Inr (map (\<lambda>t. hd predict - t) target)"
      unfolding np_sub_def by (rule broadcast2_stretch_left [OF one t1])
    have mul: "np_mul predict target = Inr (map (\<lambda>t. hd predict * t) target)"
      unfolding np_mul_def by (rule broadcast2_stretch_left [OF one t1])
    have mul': "np_mul target predict = Inr (map (\<lambda>t. t * hd predict) target)"
      unfolding np_mul_def by (rule broadcast2_stretch_right [OF one t1])
    have g: "QAObjectiveLogLoss_g_func predict target
            = Inr (map (\<lambda>t. sigmoid (hd predict * t) * t - t) target)"
      unfolding QAObjectiveLogLoss_g_func_def mul
      by (simp add: and_then_def sigmoid_array_def comp_def np_mul_def np_sub_def
          broadcast2_map_same)
    have v: "QAObjectiveLogLoss_v_func predict target = Inl ValueError"
      using one t1 by (simp add: QAObjectiveLogLoss_v_func_def mul' and_then_def np_isub_def)
    show ?thesis
      using g v
      by (simp add: QAObjectiveL2Loss_v_func_def QAObjectiveL2Loss_g_func_def
          QAObjectiveHuberLoss_v_func_def QAObjectiveHuberLoss_g_func_def
          QAObjectiveHuberLoss_h_func_def sub and_then_def Let_def comp_def
          del: power2_abs)
  qed
  have right: "QAObjectiveL2Loss_v_func predict target
            = Inr (map (\<lambda>p. (1/2) * (p - hd target)\<^sup>2) predict)
        \<and> QAObjectiveL2Loss_g_func predict target = Inr (map (\<lambda>p. p - hd target) predict)
        \<and> QAObjectiveHuberLoss_v_func self predict target
            = Inr (map (\<lambda>p. if \<bar>p - hd target\<bar> > epsilon self
                             then epsilon self * (\<bar>p - hd target\<bar> - epsilon self / 2)
                             else (1/2) * \<bar>p - hd target\<bar>\<^sup>2) predict)
        \<and> QAObjectiveHuberLoss_g_func self predict target
            = Inr (map (\<lambda>p. if \<bar>p - hd target\<bar> > epsilon self
                             then epsilon self * sgn (p - hd target)
                             else p - hd target) predict)
        \<and> QAObjectiveHuberLoss_h_func self predict target
            = Inr (map (\<lambda>p. if \<bar>p - hd target\<bar> \<le> epsilon self then 1 else 0) predict)
        \<and> QAObjectiveLogLoss_g_func predict target
            = Inr (map (\<lambda>l. sigmoid (l * hd target) * hd target - hd target) predict)
        \<and> QAObjectiveLogLoss_v_func predict target
            = Inr (map (\<lambda>l. ln (1 + exp (- \<bar>l\<bar>)) - min (hd target * l) 0) predict)"
    if one: "length target = 1"
  proof -
    from ne one have p1: "length predict \<noteq> 1" by simp
    have sub: "np_sub predict target = Inr (map (\<lambda>p. p - hd target) predict)"
      unfolding np_sub_def by (rule broadcast2_stretch_right [OF one p1])
    have mul: "np_mul predict target = Inr (map (\<lambda>p. p * hd target) predict)"
      unfolding np_mul_def by (rule broadcast2_stretch_right [OF one p1])
    have mul': "np_mul target predict = Inr (map (\<lambda>p. hd target * p) predict)"
      unfolding np_mul_def by (rule broadcast2_stretch_left [OF one p1])
    have g: "QAObjectiveLogLoss_g_func predict target
            = Inr (map (\<lambda>l. sigmoid (l * hd target) * hd target - hd target) predict)"
      using one p1
      by (simp add: QAObjectiveLogLoss_g_func_def mul and_then_def sigmoid_array_def
          np_mul_def np_sub_def broadcast2_def comp_def)
    have v: "QAObjectiveLogLoss_v_func predict target
            = Inr (map (\<lambda>l. ln (1 + exp (- \<bar>l\<bar>)) - min (hd target * l) 0) predict)"
      by (simp add: QAObjectiveLogLoss_v_func_def mul' and_then_def np_isub_def
          map2_map_map zip_same_conv_map comp_def)
    show ?thesis
      using g v
      by (simp add: QAObjectiveL2Loss_v_func_def QAObjectiveL2Loss_g_func_def
          QAObjectiveHuberLoss_v_func_def QAObjectiveHuberLoss_g_func_def
          QAObjectiveHuberLoss_h_func_def sub and_then_def Let_def comp_def
          del: power2_abs)
  qed
  from s1 s2 s3 h1 h3 fail left right show ?thesis by blast
qed

theorem length_mismatch_behaviour_witness:
  "length [1, 2 :: real] \<noteq> length [1, 2, 3 :: real]
   \<and> QAObjectiveL2Loss_score [1, 2] [1, 2, 3] = Inl ValueError
   \<and> QAObjectiveLogLoss_score [1, 2] [1, 2, 3] = Inl ValueError
   \<and> QAObjectiveL2Loss_v_func [1, 2] [1, 2, 3] = Inl ValueError
   \<and> QAObjectiveHuberLoss_h_func \<lparr>base = (), epsilon = 1\<rparr> [1, 2] [1, 2, 3] = Inl ValueError
   \<and> QAObjectiveLogLoss_g_func [1, 2] [1, 2, 3] = Inl ValueError
   \<and> QAObjectiveL2Loss_h_func [1, 2] [1, 2, 3] = Inr [1, 1, 1]
   \<and> length [5 :: real] \<noteq> length [1, 2, 3 :: real]
   \<and> QAObjectiveL2Loss_v_func [5] [1, 2, 3] = Inr [8, 9/2, 2]
   \<and> QAObjectiveHuberLoss_v_func \<lparr>base = (), epsilon = 1\<rparr> [5] [1, 2, 3] = Inr [7/2, 5/2, 3/2]
   \<and> QAObjectiveHuberLoss_g_func \<lparr>base = (), epsilon = 1\<rparr> [5] [1, 2, 3] = Inr [1, 1, 1]
   \<and> QAObjectiveHuberLoss_h_func \<lparr>base = (), epsilon = 1\<rparr> [5] [1, 2, 3] = Inr [0, 0, 0]
   \<and> QAObjectiveLogLoss_v_func [5] [1, 2, 3] = Inl ValueError
   \<and> length [0, 0, 0 :: real] \<noteq> length [1 :: real]
   \<and> QAObjectiveL2Loss_g_func [0, 0, 0] [1] = Inr [- 1, - 1, - 1]
   \<and> QAObjectiveLogLoss_g_func [0, 0, 0] [1] = Inr [- 1/2, - 1/2, - 1/2]
   \<and> QAObjectiveLogLoss_v_func [0, 0, 0] [1] = Inr [ln 2, ln 2, ln 2]"
proof -
  have a: "length [1, 2 :: real] \<noteq> length [1, 2, 3 :: real]" by simp
  have b: "length [5 :: real] \<noteq> length [1, 2, 3 :: real]" by simp
  have c: "length [0, 0, 0 :: real] \<noteq> length [1 :: real]" by simp
  have s0: "sigmoid 0 = 1 / 2" by (simp add: sigmoid_def)
  from length_mismatch_behaviour [OF a, of "\<lparr>base = (), epsilon = 1\<rparr>"]
    length_mismatch_behaviour [OF b, of "\<lparr>base = (), epsilon = 1\<rparr>"]
    length_mismatch_behaviour [OF c, of "\<lparr>base = (), epsilon = 1\<rparr>"]
  show ?thesis by (simp add: numeral_3_eq_3 s0)
qed

text \<open>
  C2, as stated, fails: the L2 gradient and value of the length-one predict \<open>[5]\<close> against
  the target \<open>[1, 2, 3]\<close> are computed by broadcasting, without an error, and the logistic
  Hessian diagonal of logit \<open>[0]\<close> against a target of length three is \<open>[1/4]\<close>.
\<close>

theorem length_mismatch_counterexample:
  "length [5 :: real] \<noteq> length [1, 2, 3 :: real]
   \<and> QAObjectiveL2Loss_g_func [5] [1, 2, 3] = Inr [4, 3, 2]
   \<and> QAObjectiveL2Loss_v_func [5] [1, 2, 3] = Inr [8, 9/2, 2]
   \<and> QAObjectiveLogLoss_h_func [0] [1, 1, 1] = Inr [1/4]"
  by (simp add: QAObjectiveL2Loss_g_func_def QAObjectiveL2Loss_v_func_def
      QAObjectiveLogLoss_h_func_def np_sub_def broadcast2_def and_then_def
      sigmoid_array_def sigmoid_def)

end
